theory Spec2Isabelle
  imports Main
begin

section \<open>The lime-compiler repository client (margaritashotgun/repository.py)\<close>

text \<open>
  The class \<open>Repository\<close> walks a YUM-style repository: it downloads the index
  \<open>repodata/repomd.xml\<close>, picks a manifest by type, downloads, checks, unzips and parses
  the manifest, looks the kernel version up and downloads the kernel module to a local file.

  The model follows the Python method by method. Everything the methods call outside the
  repository (requests, hashlib, gzip, untangle, int, datetime, time) is a field of the
  record \<open>env\<close>, so every theorem holds for every behaviour of those libraries. What a
  method does beyond returning a value is written into the record \<open>world\<close>: the files on
  disk and a chronological trace of the calls made to the outside. An exception is the
  left summand of the result.
\<close>

subsection \<open>Exceptions\<close>

text \<open>
  \<open>RepositoryError(path, reason)\<close> is raised with a message string (status code, checksum)
  or with the exception caught while parsing (line 118). The other constructors are the
  Python built-in exceptions the methods let escape; \<open>LibraryError\<close> stands for whatever
  a library raises by itself (a SAX parse error, an IOError of gzip, a ConnectionError).
\<close>

datatype exn =
    RepositoryError string cause
  | KernelModuleNotFoundError string string
  | KeyError string
  | UnboundLocalError string
  | AttributeError string
  | TypeError string
  | ValueError string
  | LibraryError string
and cause = Message string | Wrapped exn

definition bind_exn :: "exn + 'a \<Rightarrow> ('a \<Rightarrow> exn + 'b) \<Rightarrow> exn + 'b" where
  "bind_exn r f = (case r of Inl e \<Rightarrow> Inl e | Inr x \<Rightarrow> f x)"

subsection \<open>Strings\<close>

text \<open>
  Python's \<open>s.rstrip(chars)\<close> removes from the right end every character that occurs in
  \<open>chars\<close>, until one that does not: \<open>chars\<close> is a set of characters, not a suffix.
\<close>

definition rstrip :: "string \<Rightarrow> string \<Rightarrow> string" where
  "rstrip s chars = rev (dropWhile (\<lambda>c. c \<in> set chars) (rev s))"

text \<open>\<open>"{0}".format(x)\<close> of a value that is a string or \<open>None\<close>.\<close>

definition str_of :: "string option \<Rightarrow> string" where
  "str_of v = (case v of None \<Rightarrow> ''None'' | Some s \<Rightarrow> s)"

fun str_nat :: "nat \<Rightarrow> string" where
  "str_nat n =
     (if n < 10 then [''0123456789'' ! n]
      else str_nat (n div 10) @ [''0123456789'' ! (n mod 10)])"

declare str_nat.simps [simp del]

definition str_int :: "int \<Rightarrow> string" where
  "str_int i = (if i < 0 then ''-'' @ str_nat (nat (- i)) else str_nat (nat i))"

subsection \<open>The objects of the untangle library\<close>

text \<open>
  \<open>untangle.parse\<close> returns a tree of \<open>Element\<close> objects: a tag name, the attributes, the
  children in document order and the character data. \<open>e.key\<close> (\<open>__getattr__\<close>) collects
  the children named \<open>key\<close>: it raises when there is none (AttributeError; IndexError
  in old releases, which the parsers here treat alike), returns the child when there is
  one and a Python list when there are several. \<open>e[key]\<close>
  (\<open>__getitem__\<close>) is \<open>dict.get\<close> on the attributes: \<open>None\<close> when the attribute is
  missing. On a list, \<open>.cdata\<close> raises AttributeError and \<open>[key]\<close> with a string raises
  TypeError.
\<close>

datatype element =
  Element (el_name: string) (el_attributes: "(string \<times> string) list")
          (el_children: "element list") (el_cdata: string)

datatype node = Elem element | ElemList "element list"

definition getattr :: "element \<Rightarrow> string \<Rightarrow> exn + node" where
  "getattr e key =
     (case filter (\<lambda>x. el_name x = key) (el_children e) of
        [] \<Rightarrow> Inl (AttributeError key)
      | [x] \<Rightarrow> Inr (Elem x)
      | xs \<Rightarrow> Inr (ElemList xs))"

definition getattr_node :: "node \<Rightarrow> string \<Rightarrow> exn + node" where
  "getattr_node n key =
     (case n of Elem e \<Rightarrow> getattr e key | ElemList _ \<Rightarrow> Inl (AttributeError key))"

definition cdata :: "node \<Rightarrow> exn + string" where
  "cdata n = (case n of Elem e \<Rightarrow> Inr (el_cdata e) | ElemList _ \<Rightarrow> Inl (AttributeError ''cdata''))"

definition get_attribute :: "element \<Rightarrow> string \<Rightarrow> string option" where
  "get_attribute e key = map_of (el_attributes e) key"

definition getitem :: "node \<Rightarrow> string \<Rightarrow> exn + string option" where
  "getitem n key =
     (case n of Elem e \<Rightarrow> Inr (get_attribute e key)
      | ElemList _ \<Rightarrow> Inl (TypeError ''list indices must be integers''))"

text \<open>\<open>e.key.cdata\<close> and \<open>e.key['href']\<close>, as the parsers write them.\<close>

definition child_cdata :: "element \<Rightarrow> string \<Rightarrow> exn + string" where
  "child_cdata e key = bind_exn (getattr e key) cdata"

definition child_href :: "element \<Rightarrow> string \<Rightarrow> exn + string option" where
  "child_href e key = bind_exn (getattr e key) (\<lambda>n. getitem n ''href'')"

subsection \<open>The dictionaries the parsers build\<close>

datatype datetime = Datetime int int int int int int

text \<open>
  \<open>manifest_dict\<close> (lines 106-114) and \<open>mod\<close> (lines 168-177; the record is
  named \<open>module\<close>, as the variable that holds it in \<open>fetch\<close>). A field read with
  \<open>element[key]\<close> can be \<open>None\<close>, so it is an option; the keys of
  \<open>metadata['manifests']\<close> are such values.
\<close>

record manifest_dict =
  md_type :: "string option"
  md_checksum :: string
  md_open_checksum :: string
  md_location :: "string option"
  md_timestamp :: datetime
  md_size :: int
  md_open_size :: int

record metadata =
  revision :: string
  manifests :: "string option \<rightharpoonup> manifest_dict"

record module =
  mod_type :: "string option"
  mod_name :: string
  mod_arch :: string
  mod_checksum :: string
  mod_version :: string
  mod_packager :: string
  mod_location :: "string option"
  mod_signature :: "string option"
  mod_platform :: string

subsection \<open>The outside world\<close>

text \<open>
  What \<open>requests.get\<close> returns: the status, \<open>content\<close> and what \<open>raw.read()\<close> gives.
  A request whose body does not arrive is an exception of \<open>requests_get\<close>.
\<close>

record response =
  status_code :: int
  content :: string
  raw :: string

text \<open>
  The libraries, as functions: \<open>requests.get\<close> of a URL, \<open>hashlib.sha256(d).hexdigest()\<close>,
  reading a \<open>GzipFile\<close> to its end, \<open>untangle.parse\<close>, \<open>int\<close> of a string,
  \<open>datetime.fromtimestamp\<close>, \<open>int(time.time())\<close> and
  \<open>datetime.utcfromtimestamp(t).isoformat()\<close>. The file system decides whether a file
  can be opened and written: \<open>open_wb\<close> is the exception \<open>open(name, 'wb')\<close> raises,
  if any (a name with a directory that does not exist, a read-only directory);
  \<open>write_fault name data\<close> is \<open>Some (n, e)\<close> when writing \<open>data\<close> raises \<open>e\<close> after
  \<open>n\<close> bytes; \<open>open_rb\<close> is the exception \<open>open(name, 'rb')\<close> raises, if any.
\<close>

record env =
  requests_get :: "string \<Rightarrow> exn + response"
  sha256_hexdigest :: "string \<Rightarrow> string"
  gzip_read :: "string \<Rightarrow> exn + string"
  untangle_parse :: "string \<Rightarrow> exn + element"
  int_of_str :: "string \<Rightarrow> exn + int"
  fromtimestamp :: "int \<Rightarrow> exn + datetime"
  time_time :: int
  utc_isoformat :: "int \<Rightarrow> string"
  open_wb :: "string \<Rightarrow> exn option"
  write_fault :: "string \<Rightarrow> string \<Rightarrow> (nat \<times> exn) option"
  open_rb :: "string \<Rightarrow> exn option"

datatype logmsg =
    Text string
  | ParsedMetadata metadata
  | FoundModule module

datatype event =
    HttpGet string
  | GzipRead string
  | UntangleParse string
  | FileOpen string
  | FileWrite string string
  | FileRead string
  | LogDebug logmsg
  | LogInfo logmsg
  | Print exn

record world =
  files :: "string \<rightharpoonup> string"
  trace :: "event list"

definition emit :: "event \<Rightarrow> world \<Rightarrow> world" where
  "emit ev w = w\<lparr>trace := trace w @ [ev]\<rparr>"

subsection \<open>The class Repository\<close>

record repository =
  url :: string
  gpg_verify :: bool
  metadata_dir :: string
  metadata_file :: string

definition init :: "string \<Rightarrow> bool \<Rightarrow> repository" where
  "init u g = \<lparr>url = rstrip u ''/'', gpg_verify = g,
               metadata_dir = ''repodata'', metadata_file = ''repomd.xml''\<rparr>"

text \<open>\<open>verify_checksum\<close> (lines 224-242).\<close>

definition verify_checksum ::
  "env \<Rightarrow> repository \<Rightarrow> string \<Rightarrow> string \<Rightarrow> string option \<Rightarrow> world \<Rightarrow> (exn + unit) \<times> world" where
  "verify_checksum E self data checksum filename w =
     (let calculated_checksum = sha256_hexdigest E data;
          w1 = emit (LogDebug (Text (''calculated checksum '' @ calculated_checksum @
                                     '' for '' @ str_of filename))) w
      in if calculated_checksum \<noteq> checksum then
           (Inl (RepositoryError (url self @ ''/'' @ str_of filename)
                   (Message (''checksum verification failed, expected '' @ checksum @
                             '' got '' @ calculated_checksum))), w1)
         else (Inr (), w1))"

text \<open>
  \<open>parse_metadata\<close> (lines 86-121). \<open>manifest_of\<close> is the body of the loop,
  \<open>parse_manifests\<close> the loop, \<open>data_list\<close> lines 100-103 and \<open>parse_metadata_try\<close>
  the \<open>try\<close> block. Any exception leaves the block, so a failing element discards the
  entries read before it. The path of the RepositoryError comes from a format string with
  two places and three arguments: the file name is dropped.
\<close>

definition manifest_of :: "env \<Rightarrow> element \<Rightarrow> exn + manifest_dict" where
  "manifest_of E manifest =
     bind_exn (child_cdata manifest ''checksum'') (\<lambda>checksum.
     bind_exn (child_cdata manifest ''open_checksum'') (\<lambda>open_checksum.
     bind_exn (child_href manifest ''location'') (\<lambda>location.
     bind_exn (child_cdata manifest ''timestamp'') (\<lambda>ts.
     bind_exn (int_of_str E ts) (\<lambda>ts_int.
     bind_exn (fromtimestamp E ts_int) (\<lambda>timestamp.
     bind_exn (child_cdata manifest ''size'') (\<lambda>sz.
     bind_exn (int_of_str E sz) (\<lambda>size_int.
     bind_exn (child_cdata manifest ''open_size'') (\<lambda>osz.
     bind_exn (int_of_str E osz) (\<lambda>open_size_int.
     Inr \<lparr>md_type = get_attribute manifest ''type'', md_checksum = checksum,
          md_open_checksum = open_checksum, md_location = location,
          md_timestamp = timestamp, md_size = size_int,
          md_open_size = open_size_int\<rparr>))))))))))"

fun parse_manifests ::
  "env \<Rightarrow> element list \<Rightarrow> (string option \<rightharpoonup> manifest_dict) \<Rightarrow>
   exn + (string option \<rightharpoonup> manifest_dict)" where
  "parse_manifests E [] acc = Inr acc"
| "parse_manifests E (manifest # rest) acc =
     (case manifest_of E manifest of
        Inl e \<Rightarrow> Inl e
      | Inr manifest_dict \<Rightarrow>
          parse_manifests E rest (acc(get_attribute manifest ''type'' \<mapsto> manifest_dict)))"

definition data_list :: "node \<Rightarrow> element list" where
  "data_list d = (case d of ElemList ms \<Rightarrow> ms | Elem m \<Rightarrow> [m])"

definition parse_metadata_try :: "env \<Rightarrow> string \<Rightarrow> exn + metadata" where
  "parse_metadata_try E metadata_xml =
     bind_exn (untangle_parse E metadata_xml) (\<lambda>doc.
     bind_exn (getattr doc ''metadata'') (\<lambda>mdata.
     bind_exn (getattr_node mdata ''revision'') (\<lambda>rev_node.
     bind_exn (cdata rev_node) (\<lambda>rev_text.
     bind_exn (getattr_node mdata ''data'') (\<lambda>d.
     bind_exn (parse_manifests E (data_list d) Map.empty) (\<lambda>ms.
     Inr \<lparr>revision = rev_text, manifests = ms\<rparr>))))))"

definition parse_metadata ::
  "env \<Rightarrow> repository \<Rightarrow> string \<Rightarrow> world \<Rightarrow> (exn + metadata) \<times> world" where
  "parse_metadata E self metadata_xml w =
     (let w1 = emit (UntangleParse metadata_xml) w
      in case parse_metadata_try E metadata_xml of
           Inl e \<Rightarrow> (Inl (RepositoryError (url self @ ''/'' @ metadata_dir self) (Wrapped e)), w1)
         | Inr m \<Rightarrow> (Inr m, w1))"

text \<open>
  \<open>get_metadata\<close> (lines 54-84). \<open>status_code is 200\<close> compares identities; CPython keeps
  one object for each small integer, so it is equality with 200.
\<close>

definition get_metadata :: "env \<Rightarrow> repository \<Rightarrow> world \<Rightarrow> (exn + metadata) \<times> world" where
  "get_metadata E self w =
     (let metadata_path = url self @ ''/'' @ metadata_dir self @ ''/'' @ metadata_file self;
          metadata_sig_path = rstrip (url self) ''/'' @ ''/'' @ metadata_dir self @ ''/'' @
                              metadata_file self @ ''.sig'';
          w1 = emit (HttpGet metadata_path) w
      in case requests_get E metadata_path of
           Inl e \<Rightarrow> (Inl e, w1)
         | Inr req \<Rightarrow>
             if status_code req = 200 then
               (let raw_metadata = content req
                in if gpg_verify self then
                     (let w2 = emit (HttpGet metadata_sig_path) w1
                      in case requests_get E metadata_sig_path of
                           Inl e \<Rightarrow> (Inl e, w2)
                         | Inr req2 \<Rightarrow>
                             if status_code req2 = 200 then
                               parse_metadata E self raw_metadata w2
                             else
                               (Inl (RepositoryError metadata_sig_path
                                  (Message (''status code not 200: '' @
                                            str_int (status_code req2)))), w2))
                   else parse_metadata E self raw_metadata w1)
             else
               (Inl (RepositoryError metadata_path
                  (Message (''status code not 200: '' @ str_int (status_code req)))), w1))"

text \<open>\<open>unzip_manifest\<close> (lines 143-154).\<close>

definition unzip_manifest :: "env \<Rightarrow> string \<Rightarrow> world \<Rightarrow> (exn + string) \<times> world" where
  "unzip_manifest E raw_manifest w = (gzip_read E raw_manifest, emit (GzipRead raw_manifest) w)"

text \<open>
  \<open>parse_manifest\<close> (lines 156-183). \<open>module_of\<close> is the body of the loop. The loop
  writes into the dictionary that is returned after the \<open>except\<close> clause, so the entries
  read before a failing element stay, and the exception is printed, not raised:
  \<open>parse_modules\<close> returns the dictionary with the exception that stopped it, if any.
\<close>

definition module_of :: "element \<Rightarrow> exn + module" where
  "module_of m =
     bind_exn (child_cdata m ''name'') (\<lambda>name.
     bind_exn (child_cdata m ''arch'') (\<lambda>arch.
     bind_exn (child_cdata m ''checksum'') (\<lambda>checksum.
     bind_exn (child_cdata m ''version'') (\<lambda>version.
     bind_exn (child_cdata m ''packager'') (\<lambda>packager.
     bind_exn (child_href m ''location'') (\<lambda>location.
     bind_exn (child_href m ''signature'') (\<lambda>signature.
     bind_exn (child_cdata m ''platform'') (\<lambda>platform.
     Inr \<lparr>mod_type = get_attribute m ''type'', mod_name = name, mod_arch = arch,
          mod_checksum = checksum, mod_version = version, mod_packager = packager,
          mod_location = location, mod_signature = signature,
          mod_platform = platform\<rparr>))))))))"

fun parse_modules ::
  "element list \<Rightarrow> (string \<rightharpoonup> module) \<Rightarrow> (string \<rightharpoonup> module) \<times> exn option" where
  "parse_modules [] manifest = (manifest, None)"
| "parse_modules (m # rest) manifest =
     (case module_of m of
        Inl e \<Rightarrow> (manifest, Some e)
      | Inr md \<Rightarrow> parse_modules rest (manifest(mod_version md \<mapsto> md)))"

definition parse_manifest_try :: "env \<Rightarrow> string \<Rightarrow> (string \<rightharpoonup> module) \<times> exn option" where
  "parse_manifest_try E manifest_xml =
     (case bind_exn (untangle_parse E manifest_xml) (\<lambda>doc. getattr doc ''modules'') of
        Inl e \<Rightarrow> (Map.empty, Some e)
      | Inr (ElemList _) \<Rightarrow> (Map.empty, Some (AttributeError ''children''))
      | Inr (Elem mdata) \<Rightarrow> parse_modules (el_children mdata) Map.empty)"

definition parse_manifest :: "env \<Rightarrow> string \<Rightarrow> world \<Rightarrow> (string \<rightharpoonup> module) \<times> world" where
  "parse_manifest E manifest_xml w =
     (let w1 = emit (UntangleParse manifest_xml) w
      in case parse_manifest_try E manifest_xml of
           (manifest, None) \<Rightarrow> (manifest, w1)
         | (manifest, Some e) \<Rightarrow> (manifest, emit (Print e) w1))"

text \<open>
  \<open>get_manifest\<close> (lines 123-141); its parameter \<open>metadata\<close> is one entry of
  \<open>metadata['manifests']\<close>. \<open>gz_manifest\<close> is assigned only when the status is 200;
  otherwise line 135 reads a local variable that has no value. The arguments of the second
  \<open>verify_checksum\<close> are evaluated before the call, and \<open>None\<close> has no \<open>rstrip\<close>.
\<close>

definition get_manifest ::
  "env \<Rightarrow> repository \<Rightarrow> manifest_dict \<Rightarrow> world \<Rightarrow> (exn + (string \<rightharpoonup> module)) \<times> world" where
  "get_manifest E self metadata w =
     (let manifest_path = url self @ ''/'' @ str_of (md_location metadata);
          w1 = emit (HttpGet manifest_path) w
      in case requests_get E manifest_path of
           Inl e \<Rightarrow> (Inl e, w1)
         | Inr req \<Rightarrow>
             if status_code req = 200 then
               (let gz_manifest = raw req
                in case verify_checksum E self gz_manifest (md_checksum metadata)
                          (md_location metadata) w1 of
                     (Inl e, w2) \<Rightarrow> (Inl e, w2)
                   | (Inr _, w2) \<Rightarrow>
                       (case unzip_manifest E gz_manifest w2 of
                          (Inl e, w3) \<Rightarrow> (Inl e, w3)
                        | (Inr manifest, w3) \<Rightarrow>
                            (case md_location metadata of
                               None \<Rightarrow> (Inl (AttributeError ''rstrip''), w3)
                             | Some location \<Rightarrow>
                                 (case verify_checksum E self manifest (md_open_checksum metadata)
                                         (Some (rstrip location ''.gz'')) w3 of
                                    (Inl e, w4) \<Rightarrow> (Inl e, w4)
                                  | (Inr _, w4) \<Rightarrow>
                                      (case parse_manifest E manifest w4 of
                                         (m, w5) \<Rightarrow> (Inr m, w5))))))
             else (Inl (UnboundLocalError ''gz_manifest''), w1))"

text \<open>
  \<open>verify_module\<close> (lines 205-219) reads the file back and checks it; \<open>fetch_module\<close>
  (lines 185-203) names the file after the clock and the version, downloads (no look at
  the status code), writes the file and verifies it. \<open>open(filename, 'wb')\<close> can raise,
  and then nothing is written or verified; once it has succeeded the file exists, empty,
  and a failing \<open>write\<close> leaves the bytes written so far. Reading back raises when the
  file cannot be opened.
\<close>

definition verify_module ::
  "env \<Rightarrow> repository \<Rightarrow> string \<Rightarrow> module \<Rightarrow> bool \<Rightarrow> world \<Rightarrow> (exn + unit) \<times> world" where
  "verify_module E self filename md verify_signature w =
     (let w1 = emit (FileRead filename) w
      in case open_rb E filename of
           Some e \<Rightarrow> (Inl e, w1)
         | None \<Rightarrow>
             (case files w filename of
                None \<Rightarrow> (Inl (LibraryError ''IOError''), w1)
              | Some module_data \<Rightarrow>
                  verify_checksum E self module_data (mod_checksum md) (mod_location md) w1))"

definition fetch_module ::
  "env \<Rightarrow> repository \<Rightarrow> module \<Rightarrow> world \<Rightarrow> (exn + string) \<times> world" where
  "fetch_module E self md w =
     (let tm = time_time E;
          datestamp = utc_isoformat E tm;
          filename = ''lime-'' @ datestamp @ ''-'' @ mod_version md @ ''.ko'';
          u = url self @ ''/'' @ str_of (mod_location md);
          w1 = emit (LogInfo (Text (''downloading '' @ u @ '' as '' @ filename))) w;
          w2 = emit (HttpGet u) w1
      in case requests_get E u of
           Inl e \<Rightarrow> (Inl e, w2)
         | Inr req \<Rightarrow>
             (let w3 = emit (FileOpen filename) w2
              in case open_wb E filename of
                   Some e \<Rightarrow> (Inl e, w3)
                 | None \<Rightarrow>
                     (case write_fault E filename (raw req) of
                        Some (n, e) \<Rightarrow>
                          (Inl e, emit (FileWrite filename (take n (raw req)))
                                    (w3\<lparr>files := (files w3)(filename \<mapsto> take n (raw req))\<rparr>))
                      | None \<Rightarrow>
                          (let w4 = emit (FileWrite filename (raw req))
                                      (w3\<lparr>files := (files w3)(filename \<mapsto> raw req)\<rparr>)
                           in case verify_module E self filename md (gpg_verify self) w4 of
                                (Inl e, w5) \<Rightarrow> (Inl e, w5)
                              | (Inr _, w5) \<Rightarrow> (Inr filename, w5)))))"

text \<open>
  \<open>fetch\<close> (lines 32-52). \<open>metadata['manifests'][manifest_type]\<close> is a plain dictionary
  lookup: a missing key raises KeyError. Only the lookup of the kernel version stands in a
  \<open>try\<close> block.
\<close>

definition fetch ::
  "env \<Rightarrow> repository \<Rightarrow> string \<Rightarrow> string \<Rightarrow> world \<Rightarrow> (exn + string) \<times> world" where
  "fetch E self kernel_version manifest_type w =
     (case get_metadata E self w of
        (Inl e, w1) \<Rightarrow> (Inl e, w1)
      | (Inr metadata, w1) \<Rightarrow>
          (let w2 = emit (LogDebug (ParsedMetadata metadata)) w1
           in case manifests metadata (Some manifest_type) of
                None \<Rightarrow> (Inl (KeyError manifest_type), w2)
              | Some entry \<Rightarrow>
                  (case get_manifest E self entry w2 of
                     (Inl e, w3) \<Rightarrow> (Inl e, w3)
                   | (Inr manifest, w3) \<Rightarrow>
                       (case manifest kernel_version of
                          None \<Rightarrow>
                            (Inl (KernelModuleNotFoundError kernel_version (url self)), w3)
                        | Some md \<Rightarrow>
                            fetch_module E self md (emit (LogDebug (FoundModule md)) w3)))))"

subsection \<open>Notions the properties are stated with\<close>

text \<open>The events a call added to the trace, and the URLs requested among some events.\<close>

definition new_events :: "world \<Rightarrow> world \<Rightarrow> event list" where
  "new_events w w' = drop (length (trace w)) (trace w')"

fun http_gets :: "event list \<Rightarrow> string list" where
  "http_gets [] = []"
| "http_gets (HttpGet u # evs) = u # http_gets evs"
| "http_gets (_ # evs) = http_gets evs"

text \<open>
  The mapping an index with the entries \<open>xs\<close>, in document order, stands for when a
  later entry replaces an earlier one of the same type.
\<close>

definition last_of_type :: "manifest_dict list \<Rightarrow> string option \<Rightarrow> manifest_dict option" where
  "last_of_type xs k =
     (let ys = filter (\<lambda>x. md_type x = k) xs in if ys = [] then None else Some (last ys))"

subsection \<open>A small server to run the model on\<close>

text \<open>
  Three repositories on one server. Repository \<open>t\<close> lists a manifest \<open>kernel\<close> with
  three modules; a file whose name holds a \<open>/\<close> cannot be opened for writing (there
  are no directories). Repository \<open>u\<close> lists the manifests \<open>kernel\<close> (one
  module) and \<open>broken\<close> (a payload whose checksums match but which is not XML);
  repository \<open>v\<close> lists a manifest \<open>kernel\<close> with two entries of the same version. The
  digest, the decompression and the XML parser are finite tables on the payloads served;
  \<open>W\<close> is an index with two entries of type \<open>kernel\<close> and \<open>P\<close> a manifest whose
  first module has no \<open>name\<close>.
\<close>

definition leaf :: "string \<Rightarrow> string \<Rightarrow> element" where
  "leaf tag text = Element tag [] [] text"

definition href_el :: "string \<Rightarrow> string \<Rightarrow> element" where
  "href_el tag h = Element tag [(''href'', h)] [] []"

definition data_el :: "string \<Rightarrow> string \<Rightarrow> string \<Rightarrow> string \<Rightarrow> element" where
  "data_el t c oc loc =
     Element ''data'' [(''type'', t)]
       [leaf ''checksum'' c, leaf ''open_checksum'' oc, href_el ''location'' loc,
        leaf ''timestamp'' ''1'', leaf ''size'' ''1'', leaf ''open_size'' ''1''] []"

definition entry_of :: "string \<Rightarrow> string \<Rightarrow> string \<Rightarrow> string \<Rightarrow> manifest_dict" where
  "entry_of t c oc loc =
     \<lparr>md_type = Some t, md_checksum = c, md_open_checksum = oc, md_location = Some loc,
      md_timestamp = Datetime 1970 1 1 0 0 1, md_size = 1, md_open_size = 1\<rparr>"

definition module_el :: "string \<Rightarrow> string \<Rightarrow> string \<Rightarrow> element" where
  "module_el v c loc =
     Element ''module'' [(''type'', ''kernel'')]
       [leaf ''name'' ''lime'', leaf ''arch'' ''x86_64'', leaf ''checksum'' c,
        leaf ''version'' v, leaf ''packager'' ''p'', href_el ''location'' loc,
        href_el ''signature'' ''s'', leaf ''platform'' ''linux''] []"

definition module_rec :: "string \<Rightarrow> string \<Rightarrow> string \<Rightarrow> module" where
  "module_rec v c loc =
     \<lparr>mod_type = Some ''kernel'', mod_name = ''lime'', mod_arch = ''x86_64'',
      mod_checksum = c, mod_version = v, mod_packager = ''p'', mod_location = Some loc,
      mod_signature = Some ''s'', mod_platform = ''linux''\<rparr>"

definition document :: "element \<Rightarrow> element" where
  "document r = Element [] [] [r] []"

definition index_u :: element where
  "index_u = document (Element ''metadata'' []
     [leaf ''revision'' ''1'', data_el ''kernel'' ''c1'' ''c2'' ''kernel.xml.gz'',
      data_el ''broken'' ''b1'' ''b2'' ''broken.xml.gz''] [])"

definition index_v :: element where
  "index_v = document (Element ''metadata'' []
     [leaf ''revision'' ''1'', data_el ''kernel'' ''d1'' ''d2'' ''kernel.xml.gz''] [])"

definition index_w :: element where
  "index_w = document (Element ''metadata'' []
     [leaf ''revision'' ''1'', data_el ''kernel'' ''c1'' ''c2'' ''kernel.xml.gz'',
      data_el ''kernel'' ''d1'' ''d2'' ''kernel.xml.gz''] [])"

definition modules_u :: element where
  "modules_u = Element ''modules'' [] [module_el ''5.4.0-generic'' ''c3'' ''lime-5.4.0.ko''] []"

definition modules_v :: element where
  "modules_v = Element ''modules'' []
     [module_el ''5.4.0-generic'' ''c3'' ''lime-5.4.0.ko'',
      module_el ''5.4.0-generic'' ''bad'' ''lime-5.4.0.ko''] []"

definition index_t :: element where
  "index_t = document (Element ''metadata'' []
     [leaf ''revision'' ''1'', data_el ''kernel'' ''c1'' ''c2'' ''kernel.xml.gz''] [])"

definition modules_t :: element where
  "modules_t = Element ''modules'' []
     [module_el ''5.3.0-generic'' ''p3'' ''lime-5.3.0.ko'',
      module_el ''5.4.0-generic'' ''c3'' ''lime-5.4.0.ko'',
      module_el ''5.5.0-generic'' ''p5'' ''lime-5.5.0.ko''] []"

definition modules_p :: element where
  "modules_p = Element ''modules'' []
     [Element ''module'' [(''type'', ''kernel'')] [leaf ''arch'' ''x86_64''] [],
      module_el ''5.4.0-generic'' ''c3'' ''lime-5.4.0.ko''] []"

definition site :: "(string \<times> string) list" where
  "site = [(''u/repodata/repomd.xml'', ''I''), (''u/kernel.xml.gz'', ''Z''),
           (''u/lime-5.4.0.ko'', ''A''), (''u/pkg.gz'', ''Z''), (''u/broken.xml.gz'', ''Y''),
           (''v/repodata/repomd.xml'', ''J''), (''v/kernel.xml.gz'', ''D''),
           (''v/lime-5.4.0.ko'', ''A''), (''t/repodata/repomd.xml'', ''K''),
           (''t/kernel.xml.gz'', ''T''), (''t/lime-5.4.0.ko'', ''A'')]"

definition demo_env :: env where
  "demo_env =
     \<lparr>requests_get = (\<lambda>p. case map_of site p of
                            None \<Rightarrow> Inr \<lparr>status_code = 404, content = [], raw = []\<rparr>
                          | Some b \<Rightarrow> Inr \<lparr>status_code = 200, content = b, raw = b\<rparr>),
      sha256_hexdigest = (\<lambda>d. case map_of [(''Z'', ''c1''), (''M'', ''c2''), (''A'', ''c3''),
                                            (''D'', ''d1''), (''N'', ''d2''), (''Y'', ''b1''),
                                            (''B'', ''b2''), (''T'', ''c1''), (''U'', ''c2'')] d of
                                None \<Rightarrow> ''00'' | Some h \<Rightarrow> h),
      gzip_read = (\<lambda>z. case map_of [(''Z'', ''M''), (''D'', ''N''), (''Y'', ''B''),
                                     (''T'', ''U'')] z of
                         None \<Rightarrow> Inl (LibraryError ''IOError'') | Some d \<Rightarrow> Inr d),
      untangle_parse = (\<lambda>x. case map_of [(''I'', index_u), (''J'', index_v), (''W'', index_w),
                                          (''M'', document modules_u),
                                          (''N'', document modules_v),
                                          (''P'', document modules_p), (''K'', index_t),
                                          (''U'', document modules_t)] x of
                              None \<Rightarrow> Inl (LibraryError ''SAXParseException'')
                            | Some d \<Rightarrow> Inr d),
      int_of_str = (\<lambda>s. if s = ''1'' then Inr 1 else Inl (ValueError s)),
      fromtimestamp = (\<lambda>t. Inr (Datetime 1970 1 1 0 0 t)),
      time_time = 0,
      utc_isoformat = (\<lambda>t. ''1970-01-01T00:00:00''),
      open_wb = (\<lambda>name. if CHR ''/'' \<in> set name then Some (LibraryError ''IOError'') else None),
      write_fault = (\<lambda>name data. None),
      open_rb = (\<lambda>name. None)\<rparr>"

definition repo_u :: repository where
  "repo_u = init ''u/'' False"

definition repo_t :: repository where
  "repo_t = init ''t/'' False"

definition repo_v :: repository where
  "repo_v = init ''v/'' False"

definition w0 :: world where
  "w0 = \<lparr>files = Map.empty, trace = []\<rparr>"

section \<open>Properties\<close>

lemmas demo_defs = leaf_def href_el_def data_el_def entry_of_def module_el_def module_rec_def
  document_def index_u_def index_v_def index_w_def index_t_def modules_t_def repo_t_def modules_u_def modules_v_def modules_p_def site_def
  demo_env_def repo_u_def repo_v_def w0_def init_def rstrip_def str_of_def

lemmas model_defs = fetch_def get_metadata_def parse_metadata_def parse_metadata_try_def
  manifest_of_def data_list_def bind_exn_def getattr_def getattr_node_def cdata_def getitem_def
  get_attribute_def child_cdata_def child_href_def get_manifest_def verify_checksum_def
  unzip_manifest_def parse_manifest_def parse_manifest_try_def module_of_def fetch_module_def
  verify_module_def emit_def Let_def

subsection \<open>Checksum verification\<close>

lemma verify_checksum_eq:
  "verify_checksum E self data checksum filename w =
     (if sha256_hexdigest E data = checksum then Inr ()
      else Inl (RepositoryError (url self @ ''/'' @ str_of filename)
             (Message (''checksum verification failed, expected '' @ checksum @
                       '' got '' @ sha256_hexdigest E data))),
      w\<lparr>trace := trace w @ [LogDebug (Text (''calculated checksum '' @ sha256_hexdigest E data @
                                '' for '' @ str_of filename))]\<rparr>)"
  by (simp add: verify_checksum_def emit_def Let_def)

text \<open>
  Claim C2. \<open>verify_checksum\<close> raises exactly when the SHA-256 hex digest of the data is
  not the expected string (equality of strings, so case matters). The error is the
  RepositoryError whose path ends in the label and whose message holds the expected value
  and the computed digest. In either case the files are untouched and the trace grows by
  the one debug log record.
\<close>

theorem verify_checksum_spec:
  "(isl (fst (verify_checksum E self data expected label w))
      \<longleftrightarrow> sha256_hexdigest E data \<noteq> expected) \<and>
   (sha256_hexdigest E data \<noteq> expected \<longrightarrow>
      fst (verify_checksum E self data expected label w) =
        Inl (RepositoryError (url self @ ''/'' @ str_of label)
               (Message (''checksum verification failed, expected '' @ expected @
                         '' got '' @ sha256_hexdigest E data)))) \<and>
   (sha256_hexdigest E data = expected \<longrightarrow>
      fst (verify_checksum E self data expected label w) = Inr ()) \<and>
   files (snd (verify_checksum E self data expected label w)) = files w \<and>
   trace (snd (verify_checksum E self data expected label w)) =
     trace w @ [LogDebug (Text (''calculated checksum '' @ sha256_hexdigest E data @
                                '' for '' @ str_of label))]"
  by (simp add: verify_checksum_eq)

theorem verify_checksum_spec_witness:
  "sha256_hexdigest demo_env ''A'' \<noteq> ''C3'' \<and>
   fst (verify_checksum demo_env repo_u ''A'' ''C3'' (Some ''lime-5.4.0.ko'') w0) =
     Inl (RepositoryError ''u/lime-5.4.0.ko''
            (Message ''checksum verification failed, expected C3 got c3'')) \<and>
   sha256_hexdigest demo_env ''A'' = ''c3'' \<and>
   fst (verify_checksum demo_env repo_u ''A'' ''c3'' (Some ''lime-5.4.0.ko'') w0) = Inr ()"
proof -
  have ne: "sha256_hexdigest demo_env ''A'' \<noteq> ''C3''"
    and eq: "sha256_hexdigest demo_env ''A'' = ''c3''"
    by (simp_all add: demo_defs)
  note bad = verify_checksum_spec[where E = demo_env and data = "''A''" and expected = "''C3''"
      and self = repo_u and label = "Some ''lime-5.4.0.ko''" and w = w0]
  note good = verify_checksum_spec[where E = demo_env and data = "''A''" and expected = "''c3''"
      and self = repo_u and label = "Some ''lime-5.4.0.ko''" and w = w0]
  from bad ne have
    "fst (verify_checksum demo_env repo_u ''A'' ''C3'' (Some ''lime-5.4.0.ko'') w0) =
       Inl (RepositoryError (url repo_u @ ''/'' @ str_of (Some ''lime-5.4.0.ko''))
              (Message (''checksum verification failed, expected '' @ ''C3'' @
                        '' got '' @ sha256_hexdigest demo_env ''A'')))"
    by blast
  moreover from good eq have
    "fst (verify_checksum demo_env repo_u ''A'' ''c3'' (Some ''lime-5.4.0.ko'') w0) = Inr ()"
    by blast
  ultimately show ?thesis
    using ne eq by (simp add: demo_defs)
qed

subsection \<open>Manifest resolution\<close>

lemma parse_manifest_trace:
  "parse_manifest E doc w = (m, w') \<Longrightarrow>
   \<exists>rest. trace w' = trace w @ UntangleParse doc # rest \<and> (\<forall>ev \<in> set rest. \<exists>e. ev = Print e)"
  by (auto simp: parse_manifest_def emit_def Let_def split: prod.splits option.splits)

text \<open>
  Claim C3. In \<open>get_manifest\<close> the decoder runs only on a payload whose digest is the
  entry's \<open>checksum\<close>, and the XML parser runs only on a document whose digest is the
  entry's \<open>open_checksum\<close>. A downloaded payload with another digest makes the call fail
  with no decoder call at all. When the call returns, its events are, in this order: the
  download, the check of the compressed payload, the decompression, the check of the
  decompressed document, the parse (and then at most what the parser printed).
\<close>

theorem get_manifest_order:
  assumes "get_manifest E self d w = (r, w')"
  shows "trace w' = trace w @ new_events w w' \<and>
    (\<forall>x. GzipRead x \<in> set (new_events w w') \<longrightarrow> sha256_hexdigest E x = md_checksum d) \<and>
    (\<forall>y. UntangleParse y \<in> set (new_events w w') \<longrightarrow>
           sha256_hexdigest E y = md_open_checksum d) \<and>
    (\<forall>req. requests_get E (url self @ ''/'' @ str_of (md_location d)) = Inr req \<and>
           sha256_hexdigest E (raw req) \<noteq> md_checksum d \<longrightarrow>
           isl r \<and> (\<forall>x. GzipRead x \<notin> set (new_events w w'))) \<and>
    (\<forall>m. r = Inr m \<longrightarrow>
       (\<exists>req doc loc rest.
          requests_get E (url self @ ''/'' @ loc) = Inr req \<and> md_location d = Some loc \<and>
          gzip_read E (raw req) = Inr doc \<and>
          new_events w w' =
            [HttpGet (url self @ ''/'' @ loc),
             LogDebug (Text (''calculated checksum '' @ md_checksum d @ '' for '' @ loc)),
             GzipRead (raw req),
             LogDebug (Text (''calculated checksum '' @ md_open_checksum d @ '' for '' @
                             rstrip loc ''.gz'')),
             UntangleParse doc] @ rest))"
  using assms
  by (auto simp: get_manifest_def verify_checksum_eq unzip_manifest_def emit_def Let_def
      new_events_def str_of_def
      split: sum.splits prod.splits option.splits if_splits dest!: parse_manifest_trace)

theorem get_manifest_order_witness:
  "GzipRead ''Z'' \<in> set (new_events w0 (snd (get_manifest demo_env repo_u
       (entry_of ''kernel'' ''c1'' ''c2'' ''kernel.xml.gz'') w0))) \<and>
   sha256_hexdigest demo_env ''Z'' = ''c1'' \<and>
   UntangleParse ''M'' \<in> set (new_events w0 (snd (get_manifest demo_env repo_u
       (entry_of ''kernel'' ''c1'' ''c2'' ''kernel.xml.gz'') w0))) \<and>
   sha256_hexdigest demo_env ''M'' = ''c2'' \<and>
   fst (get_manifest demo_env repo_u (entry_of ''kernel'' ''c1'' ''c2'' ''kernel.xml.gz'') w0) =
     Inr [''5.4.0-generic'' \<mapsto> module_rec ''5.4.0-generic'' ''c3'' ''lime-5.4.0.ko''] \<and>
   sha256_hexdigest demo_env ''Z'' \<noteq> ''xx'' \<and>
   isl (fst (get_manifest demo_env repo_u
       (entry_of ''kernel'' ''xx'' ''c2'' ''kernel.xml.gz'') w0)) \<and>
   GzipRead ''Z'' \<notin> set (new_events w0 (snd (get_manifest demo_env repo_u
       (entry_of ''kernel'' ''xx'' ''c2'' ''kernel.xml.gz'') w0)))"
proof -
  let ?good = "entry_of ''kernel'' ''c1'' ''c2'' ''kernel.xml.gz''"
  let ?bad = "entry_of ''kernel'' ''xx'' ''c2'' ''kernel.xml.gz''"
  let ?req = "\<lparr>status_code = 200, content = ''Z'', raw = ''Z''\<rparr>"
  have run: "GzipRead ''Z'' \<in> set (new_events w0 (snd (get_manifest demo_env repo_u ?good w0)))"
    "UntangleParse ''M'' \<in> set (new_events w0 (snd (get_manifest demo_env repo_u ?good w0)))"
    "fst (get_manifest demo_env repo_u ?good w0) =
       Inr [''5.4.0-generic'' \<mapsto> module_rec ''5.4.0-generic'' ''c3'' ''lime-5.4.0.ko'']"
    by (simp_all add: new_events_def model_defs demo_defs)
  have served: "requests_get demo_env (url repo_u @ ''/'' @ str_of (md_location ?bad)) = Inr ?req \<and>
      sha256_hexdigest demo_env (raw ?req) \<noteq> md_checksum ?bad"
    and differs: "sha256_hexdigest demo_env ''Z'' \<noteq> ''xx''"
    and good_sums: "md_checksum ?good = ''c1''" "md_open_checksum ?good = ''c2''"
    by (simp_all add: demo_defs)
  note good = get_manifest_order[OF prod.collapse[symmetric],
      where E = demo_env and self = repo_u and d = ?good and w = w0]
  note bad = get_manifest_order[OF prod.collapse[symmetric],
      where E = demo_env and self = repo_u and d = ?bad and w = w0]
  note gz = good[THEN conjunct2, THEN conjunct1, rule_format, OF run(1)]
  note xml = good[THEN conjunct2, THEN conjunct2, THEN conjunct1, rule_format, OF run(2)]
  note stop = bad[THEN conjunct2, THEN conjunct2, THEN conjunct2, THEN conjunct1,
      rule_format, OF served]
  from stop have "isl (fst (get_manifest demo_env repo_u ?bad w0))"
    and "GzipRead ''Z'' \<notin> set (new_events w0 (snd (get_manifest demo_env repo_u ?bad w0)))"
    by blast+
  then show ?thesis
    using run differs gz xml good_sums by simp
qed

subsection \<open>The artifact download\<close>

text \<open>
  Claim C10. Take a download whose bytes reach the check: the file could be opened and
  written, and read back. When the bytes do not have the module's checksum,
  \<open>fetch_module\<close> raises, and the file is there with the unverified bytes: the file was
  written in full before it was read back and checked, as the order of the events shows,
  and nothing removes it.
\<close>

theorem fetch_module_not_atomic:
  assumes "requests_get E (url self @ ''/'' @ str_of (mod_location m)) = Inr req"
      and "filename = ''lime-'' @ utc_isoformat E (time_time E) @ ''-'' @ mod_version m @ ''.ko''"
      and "open_wb E filename = None"
      and "write_fault E filename (raw req) = None"
      and "open_rb E filename = None"
      and "sha256_hexdigest E (raw req) \<noteq> mod_checksum m"
  shows "fst (fetch_module E self m w) =
           Inl (RepositoryError (url self @ ''/'' @ str_of (mod_location m))
                  (Message (''checksum verification failed, expected '' @ mod_checksum m @
                            '' got '' @ sha256_hexdigest E (raw req)))) \<and>
         files (snd (fetch_module E self m w)) filename = Some (raw req) \<and>
         trace (snd (fetch_module E self m w)) =
           trace w @
           [LogInfo (Text (''downloading '' @ url self @ ''/'' @ str_of (mod_location m) @
                           '' as '' @ filename)),
            HttpGet (url self @ ''/'' @ str_of (mod_location m)),
            FileOpen filename,
            FileWrite filename (raw req),
            FileRead filename,
            LogDebug (Text (''calculated checksum '' @ sha256_hexdigest E (raw req) @
                            '' for '' @ str_of (mod_location m)))]"
  using assms
  by (simp add: fetch_module_def verify_module_def verify_checksum_eq emit_def Let_def)

theorem fetch_module_not_atomic_witness:
  "requests_get demo_env ''u/lime-5.4.0.ko'' =
     Inr \<lparr>status_code = 200, content = ''A'', raw = ''A''\<rparr> \<and>
   open_wb demo_env ''lime-1970-01-01T00:00:00-5.4.0-generic.ko'' = None \<and>
   write_fault demo_env ''lime-1970-01-01T00:00:00-5.4.0-generic.ko'' ''A'' = None \<and>
   open_rb demo_env ''lime-1970-01-01T00:00:00-5.4.0-generic.ko'' = None \<and>
   sha256_hexdigest demo_env ''A'' \<noteq> ''bad'' \<and>
   files w0 ''lime-1970-01-01T00:00:00-5.4.0-generic.ko'' = None \<and>
   fst (fetch_module demo_env repo_u (module_rec ''5.4.0-generic'' ''bad'' ''lime-5.4.0.ko'') w0) =
     Inl (RepositoryError ''u/lime-5.4.0.ko''
            (Message ''checksum verification failed, expected bad got c3'')) \<and>
   files (snd (fetch_module demo_env repo_u
                 (module_rec ''5.4.0-generic'' ''bad'' ''lime-5.4.0.ko'') w0))
     ''lime-1970-01-01T00:00:00-5.4.0-generic.ko'' = Some ''A''"
proof -
  let ?m = "module_rec ''5.4.0-generic'' ''bad'' ''lime-5.4.0.ko''"
  let ?req = "\<lparr>status_code = 200, content = ''A'', raw = ''A''\<rparr>"
  let ?f = "''lime-1970-01-01T00:00:00-5.4.0-generic.ko''"
  have served: "requests_get demo_env (url repo_u @ ''/'' @ str_of (mod_location ?m)) = Inr ?req"
    and name: "?f =
        ''lime-'' @ utc_isoformat demo_env (time_time demo_env) @ ''-'' @ mod_version ?m @ ''.ko''"
    and opened: "open_wb demo_env ?f = None"
    and written: "write_fault demo_env ?f (raw ?req) = None"
    and readable: "open_rb demo_env ?f = None"
    and differs: "sha256_hexdigest demo_env (raw ?req) \<noteq> mod_checksum ?m"
    by (simp_all add: demo_defs)
  from fetch_module_not_atomic[OF served name opened written readable differs, of w0]
  show ?thesis
    by (simp add: demo_defs)
qed

text \<open>
  When the file cannot be opened (a version with a \<open>/\<close> in it names a directory that
  is not there), \<open>fetch_module\<close> raises that error, and no file is written or checked.
\<close>

lemma fetch_module_open_fails:
  assumes "requests_get E (url self @ ''/'' @ str_of (mod_location m)) = Inr req"
      and "filename = ''lime-'' @ utc_isoformat E (time_time E) @ ''-'' @ mod_version m @ ''.ko''"
      and "open_wb E filename = Some e"
  shows "fst (fetch_module E self m w) = Inl e \<and>
         files (snd (fetch_module E self m w)) = files w"
  using assms by (simp add: fetch_module_def emit_def Let_def)

lemma fetch_module_open_fails_example:
  "fst (fetch_module demo_env repo_u (module_rec ''5.4/0'' ''bad'' ''lime-5.4.0.ko'') w0) =
     Inl (LibraryError ''IOError'') \<and>
   files (snd (fetch_module demo_env repo_u (module_rec ''5.4/0'' ''bad'' ''lime-5.4.0.ko'') w0))
     ''lime-1970-01-01T00:00:00-5.4/0.ko'' = None"
  by (simp add: fetch_module_def emit_def Let_def demo_defs)

subsection \<open>Looking the kernel version up\<close>

lemma parse_modules_keys:
  "parse_modules es acc = (M, x) \<Longrightarrow> (\<And>k m. acc k = Some m \<Longrightarrow> mod_version m = k) \<Longrightarrow>
   M k = Some m \<Longrightarrow> mod_version m = k"
proof (induction es arbitrary: acc)
  case Nil
  then show ?case by simp
next
  case (Cons e es)
  show ?case
  proof (cases "module_of e")
    case (Inl err)
    with Cons.prems show ?thesis by simp
  next
    case (Inr md)
    with Cons.prems(1) have step: "parse_modules es (acc(mod_version md \<mapsto> md)) = (M, x)"
      by simp
    show ?thesis
      by (rule Cons.IH[OF step _ Cons.prems(3)]) (auto dest: Cons.prems(2) split: if_splits)
  qed
qed

lemma parse_manifest_keys:
  "parse_manifest E doc w = (M, w') \<Longrightarrow> M k = Some m \<Longrightarrow> mod_version m = k"
  by (auto simp: parse_manifest_def parse_manifest_try_def Let_def
      split: prod.splits option.splits sum.splits node.splits
      dest: parse_modules_keys[where acc = Map.empty and k = k and m = m])

lemma get_manifest_keys:
  "get_manifest E self d w = (Inr M, w') \<Longrightarrow> M k = Some m \<Longrightarrow> mod_version m = k"
  by (auto simp: get_manifest_def Let_def
      split: sum.splits prod.splits option.splits if_splits dest: parse_manifest_keys)

text \<open>
  Claim C5. Once the index is read and the manifest of the requested type is resolved to
  a table, \<open>fetch\<close> with a version that is a key of the table goes on to
  \<open>fetch_module\<close> with exactly the record stored under that key, whose version is the
  requested one; with a version that is not a key it raises KernelModuleNotFoundError with
  the version and the repository URL.
\<close>

theorem fetch_lookup:
  assumes "get_metadata E self w = (Inr md, w1)"
      and "manifests md (Some manifest_type) = Some entry"
      and "get_manifest E self entry (emit (LogDebug (ParsedMetadata md)) w1) = (Inr manifest, w3)"
  shows "(\<forall>m. manifest kernel_version = Some m \<longrightarrow>
            mod_version m = kernel_version \<and>
            fetch E self kernel_version manifest_type w =
              fetch_module E self m (emit (LogDebug (FoundModule m)) w3)) \<and>
         (manifest kernel_version = None \<longrightarrow>
            fetch E self kernel_version manifest_type w =
              (Inl (KernelModuleNotFoundError kernel_version (url self)), w3))"
  using assms get_manifest_keys[OF assms(3), of kernel_version]
  by (simp add: fetch_def Let_def)

theorem fetch_lookup_witness:
  "fst (fetch demo_env repo_u ''5.4.0-generic'' ''kernel'' w0) =
     Inr ''lime-1970-01-01T00:00:00-5.4.0-generic.ko'' \<and>
   fst (fetch demo_env repo_u ''9.9'' ''kernel'' w0) =
     Inl (KernelModuleNotFoundError ''9.9'' ''u'')"
proof -
  let ?entry = "entry_of ''kernel'' ''c1'' ''c2'' ''kernel.xml.gz''"
  let ?m = "module_rec ''5.4.0-generic'' ''c3'' ''lime-5.4.0.ko''"
  obtain md w1 where index: "get_metadata demo_env repo_u w0 = (Inr md, w1)"
    and entry: "manifests md (Some ''kernel'') = Some ?entry"
    by (simp add: model_defs demo_defs)
  obtain manifest w3 where
    table: "get_manifest demo_env repo_u ?entry (emit (LogDebug (ParsedMetadata md)) w1) =
      (Inr manifest, w3)"
    and present: "manifest ''5.4.0-generic'' = Some ?m" and absent: "manifest ''9.9'' = None"
    by (simp add: model_defs demo_defs)
  note found = fetch_lookup[OF index entry table, of "''5.4.0-generic''"]
  note missing = fetch_lookup[OF index entry table, of "''9.9''"]
  from found present
  have "fetch demo_env repo_u ''5.4.0-generic'' ''kernel'' w0 =
          fetch_module demo_env repo_u ?m (emit (LogDebug (FoundModule ?m)) w3)"
    by blast
  moreover have "fst (fetch_module demo_env repo_u ?m (emit (LogDebug (FoundModule ?m)) w3)) =
      Inr ''lime-1970-01-01T00:00:00-5.4.0-generic.ko''"
    by (simp add: fetch_module_def verify_module_def verify_checksum_eq emit_def Let_def demo_defs)
  moreover from missing absent
  have "fst (fetch demo_env repo_u ''9.9'' ''kernel'' w0) =
          Inl (KernelModuleNotFoundError ''9.9'' (url repo_u))"
    by simp
  ultimately show ?thesis
    by (simp add: demo_defs)
qed

subsection \<open>Parsing the index\<close>

lemma manifest_of_type:
  "manifest_of E d = Inr x \<Longrightarrow> md_type x = get_attribute d ''type''"
  by (auto simp: manifest_of_def bind_exn_def split: sum.splits)

lemma parse_manifests_snoc:
  "parse_manifests E (ds @ [d]) acc =
     (case parse_manifests E ds acc of
        Inl e \<Rightarrow> Inl e
      | Inr M \<Rightarrow> (case manifest_of E d of
                    Inl e \<Rightarrow> Inl e
                  | Inr x \<Rightarrow> Inr (M(get_attribute d ''type'' \<mapsto> x))))"
  by (induction ds arbitrary: acc) (auto split: sum.splits)

lemma last_of_type_snoc:
  "last_of_type (xs @ [x]) k = (if md_type x = k then Some x else last_of_type xs k)"
  by (simp add: last_of_type_def Let_def)

lemma parse_manifests_all:
  "map (manifest_of E) ds = map Inr xs \<Longrightarrow>
   parse_manifests E ds Map.empty = Inr (last_of_type xs)"
proof (induction ds arbitrary: xs rule: rev_induct)
  case Nil
  then show ?case by (simp add: last_of_type_def fun_eq_iff)
next
  case (snoc d ds)
  from snoc.prems obtain ys y where xs: "xs = ys @ [y]"
    and ys: "map (manifest_of E) ds = map Inr ys" and y: "manifest_of E d = Inr y"
    by (cases xs rule: rev_cases) auto
  have "parse_manifests E ds Map.empty = Inr (last_of_type ys)"
    by (rule snoc.IH[OF ys])
  then show ?case
    using y manifest_of_type[OF y]
    by (auto simp: parse_manifests_snoc xs last_of_type_snoc fun_eq_iff)
qed

lemma getattr_data:
  "filter (\<lambda>x. el_name x = key) (el_children e) = ds \<Longrightarrow> ds \<noteq> [] \<Longrightarrow>
   \<exists>n. getattr e key = Inr n \<and> data_list n = ds"
  by (auto simp: getattr_def data_list_def split: list.splits)

text \<open>
  Claim C8. Take a valid index document: it parses, its \<open>metadata\<close> element has a
  \<open>revision\<close> and the \<open>data\<close> elements \<open>ds\<close>, one or several, which decode to the
  entries \<open>xs\<close>. The library hands a single \<open>data\<close> element over as the element and
  several as a list; lines 100-103 turn the element and the one-element list of it into
  the same list, and \<open>parse_metadata\<close> returns, in both cases, the revision with the
  mapping that sends a type to the last entry of that type. So of two entries with one
  type the returned mapping holds the later one.
\<close>

theorem parse_metadata_single_or_list:
  assumes "untangle_parse E metadata_xml = Inr doc"
      and "getattr doc ''metadata'' = Inr (Elem mdata)"
      and "child_cdata mdata ''revision'' = Inr r"
      and "filter (\<lambda>x. el_name x = ''data'') (el_children mdata) = ds" and "ds \<noteq> []"
      and "map (manifest_of E) ds = map Inr xs"
  shows "data_list (Elem m) = data_list (ElemList [m]) \<and>
         (getattr mdata ''data'' = Inr (if length ds = 1 then Elem (hd ds) else ElemList ds)) \<and>
         parse_metadata E self metadata_xml w =
           (Inr \<lparr>revision = r, manifests = last_of_type xs\<rparr>,
            emit (UntangleParse metadata_xml) w) \<and>
         (\<forall>pre x mid y post. xs = pre @ x # mid @ y # post \<and> md_type x = md_type y \<and>
              (\<forall>z \<in> set post. md_type z \<noteq> md_type y) \<longrightarrow>
              (\<exists>md. fst (parse_metadata E self metadata_xml w) = Inr md \<and>
                    manifests md (md_type x) = Some y))"
proof -
  from getattr_data[OF assms(4,5)] obtain n where
    n: "getattr mdata ''data'' = Inr n" "data_list n = ds" by blast
  have shape: "getattr mdata ''data'' = Inr (if length ds = 1 then Elem (hd ds) else ElemList ds)"
    using assms(4,5) by (auto simp: getattr_def split: list.splits)
  have "parse_metadata_try E metadata_xml = Inr \<lparr>revision = r, manifests = last_of_type xs\<rparr>"
    using assms(1-3) n parse_manifests_all[OF assms(6)]
    by (auto simp: parse_metadata_try_def bind_exn_def getattr_node_def child_cdata_def
        split: sum.splits)
  then have run: "parse_metadata E self metadata_xml w =
      (Inr \<lparr>revision = r, manifests = last_of_type xs\<rparr>, emit (UntangleParse metadata_xml) w)"
    by (simp add: parse_metadata_def Let_def)
  have later: "last_of_type (pre @ x # mid @ y # post) (md_type y) = Some y"
    if "\<forall>z \<in> set post. md_type z \<noteq> md_type y" for pre x mid y post
  proof -
    have "filter (\<lambda>z. md_type z = md_type y) post = []"
      using that by (simp add: filter_empty_conv)
    then show ?thesis
      by (simp add: last_of_type_def Let_def)
  qed
  have "data_list (Elem m) = data_list (ElemList [m])"
    by (simp add: data_list_def)
  then show ?thesis
    using shape run later by auto
qed

theorem parse_metadata_single_or_list_witness:
  "parse_metadata demo_env repo_v ''J'' w0 =
     (Inr \<lparr>revision = ''1'',
           manifests = last_of_type [entry_of ''kernel'' ''d1'' ''d2'' ''kernel.xml.gz'']\<rparr>,
      emit (UntangleParse ''J'') w0) \<and>
   parse_metadata demo_env repo_v ''W'' w0 =
     (Inr \<lparr>revision = ''1'',
           manifests = last_of_type [entry_of ''kernel'' ''c1'' ''c2'' ''kernel.xml.gz'',
                                     entry_of ''kernel'' ''d1'' ''d2'' ''kernel.xml.gz'']\<rparr>,
      emit (UntangleParse ''W'') w0) \<and>
   (\<exists>md. fst (parse_metadata demo_env repo_v ''W'' w0) = Inr md \<and>
         manifests md (Some ''kernel'') = Some (entry_of ''kernel'' ''d1'' ''d2'' ''kernel.xml.gz''))"
proof -
  let ?a = "entry_of ''kernel'' ''c1'' ''c2'' ''kernel.xml.gz''"
  let ?b = "entry_of ''kernel'' ''d1'' ''d2'' ''kernel.xml.gz''"
  let ?da = "data_el ''kernel'' ''c1'' ''c2'' ''kernel.xml.gz''"
  let ?db = "data_el ''kernel'' ''d1'' ''d2'' ''kernel.xml.gz''"
  let ?mj = "Element ''metadata'' [] [leaf ''revision'' ''1'', ?db] []"
  let ?mw = "Element ''metadata'' [] [leaf ''revision'' ''1'', ?da, ?db] []"
  have j: "untangle_parse demo_env ''J'' = Inr index_v"
    "getattr index_v ''metadata'' = Inr (Elem ?mj)"
    "child_cdata ?mj ''revision'' = Inr ''1''"
    "filter (\<lambda>x. el_name x = ''data'') (el_children ?mj) = [?db]" "[?db] \<noteq> []"
    "map (manifest_of demo_env) [?db] = map Inr [?b]"
    by (simp_all add: demo_defs manifest_of_def bind_exn_def getattr_def cdata_def getitem_def
        get_attribute_def child_cdata_def child_href_def)
  have w: "untangle_parse demo_env ''W'' = Inr index_w"
    "getattr index_w ''metadata'' = Inr (Elem ?mw)"
    "child_cdata ?mw ''revision'' = Inr ''1''"
    "filter (\<lambda>x. el_name x = ''data'') (el_children ?mw) = [?da, ?db]" "[?da, ?db] \<noteq> []"
    "map (manifest_of demo_env) [?da, ?db] = map Inr [?a, ?b]"
    by (simp_all add: demo_defs manifest_of_def bind_exn_def getattr_def cdata_def getitem_def
        get_attribute_def child_cdata_def child_href_def)
  note single = parse_metadata_single_or_list[OF j, where self = repo_v and w = w0]
  note several = parse_metadata_single_or_list[OF w, where self = repo_v and w = w0]
  note single_run = single[THEN conjunct2, THEN conjunct2, THEN conjunct1]
  note several_run = several[THEN conjunct2, THEN conjunct2, THEN conjunct1]
  have split: "[?a, ?b] = [] @ ?a # [] @ ?b # [] \<and> md_type ?a = md_type ?b \<and>
      (\<forall>z \<in> set []. md_type z \<noteq> md_type ?b)"
    by (simp add: demo_defs)
  note kept = several[THEN conjunct2, THEN conjunct2, THEN conjunct2, rule_format, OF split]
  have "md_type ?a = Some ''kernel''"
    by (simp add: demo_defs)
  with kept have "\<exists>md. fst (parse_metadata demo_env repo_v ''W'' w0) = Inr md \<and>
      manifests md (Some ''kernel'') = Some ?b"
    by simp
  with single_run several_run show ?thesis
    by blast
qed

subsection \<open>The whole walk\<close>

lemma parse_modules_post:
  "\<forall>x \<in> set post. \<forall>m'. module_of x = Inr m' \<longrightarrow> mod_version m' \<noteq> v \<Longrightarrow>
   fst (parse_modules post acc) v = acc v"
  by (induction post arbitrary: acc) (auto split: sum.splits)

lemma parse_modules_entry:
  assumes "\<forall>x \<in> set pre. \<not> isl (module_of x)"
      and "module_of e = Inr m"
      and "\<forall>x \<in> set post. \<forall>m'. module_of x = Inr m' \<longrightarrow> mod_version m' \<noteq> mod_version m"
  shows "fst (parse_modules (pre @ e # post) acc) (mod_version m) = Some m"
  using assms(1)
proof (induction pre arbitrary: acc)
  case Nil
  show ?case
    using assms(2) parse_modules_post[OF assms(3)] by simp
next
  case (Cons x pre)
  then obtain md where md: "module_of x = Inr md"
    by (cases "module_of x") auto
  have "parse_modules ((x # pre) @ e # post) acc =
        parse_modules (pre @ e # post) (acc(mod_version md \<mapsto> md))"
    by (simp add: md)
  then show ?case
    using Cons by simp
qed

lemma parse_manifest_table:
  "parse_manifest E doc w = (M, w') \<Longrightarrow> M = fst (parse_manifest_try E doc)"
  by (auto simp: parse_manifest_def Let_def split: prod.splits option.splits)

lemma parse_manifest_entry:
  assumes "untangle_parse E doc = Inr root"
      and "getattr root ''modules'' = Inr (Elem mods)"
      and "el_children mods = pre @ e # post"
      and "\<forall>x \<in> set pre. \<not> isl (module_of x)"
      and "module_of e = Inr m"
      and "\<forall>x \<in> set post. \<forall>m'. module_of x = Inr m' \<longrightarrow> mod_version m' \<noteq> mod_version m"
  shows "fst (parse_manifest_try E doc) (mod_version m) = Some m"
  using assms(1-3) parse_modules_entry[OF assms(4-6), of Map.empty]
  by (simp add: parse_manifest_try_def bind_exn_def)

lemma get_manifest_ok:
  assumes "md_location d = Some loc"
      and "requests_get E (url self @ ''/'' @ loc) = Inr req"
      and "status_code req = 200"
      and "sha256_hexdigest E (raw req) = md_checksum d"
      and "gzip_read E (raw req) = Inr doc"
      and "sha256_hexdigest E doc = md_open_checksum d"
  shows "fst (get_manifest E self d w) = Inr (fst (parse_manifest_try E doc))"
  using assms
  by (auto simp: get_manifest_def verify_checksum_eq unzip_manifest_def Let_def str_of_def
      split: prod.splits dest: parse_manifest_table)

lemma fetch_module_ok:
  assumes "requests_get E (url self @ ''/'' @ str_of (mod_location m)) = Inr req"
      and "filename = ''lime-'' @ utc_isoformat E (time_time E) @ ''-'' @ mod_version m @ ''.ko''"
      and "open_wb E filename = None"
      and "write_fault E filename (raw req) = None"
      and "open_rb E filename = None"
      and "sha256_hexdigest E (raw req) = mod_checksum m"
  shows "fst (fetch_module E self m w) = Inr filename \<and>
         files (snd (fetch_module E self m w)) filename = Some (raw req)"
  using assms
  by (simp add: fetch_module_def verify_module_def verify_checksum_eq emit_def Let_def)

text \<open>
  Claim C1, as stated, fails: the table keeps the last entry of a version. Repository
  \<open>v\<close> meets every condition of the scenario (its digests \<open>d1\<close>, \<open>d2\<close>, \<open>c3\<close>
  are the scenario's C1, C2, C3), the manifest holds the module entry with checksum
  \<open>c3\<close>, and a second entry of the same version with another checksum follows it. The
  file can be written and read, and \<open>fetch\<close> raises.
\<close>

theorem fetch_end_to_end_counterexample:
  "fst (get_metadata demo_env repo_v w0) =
     Inr \<lparr>revision = ''1'',
          manifests = [Some ''kernel'' \<mapsto> entry_of ''kernel'' ''d1'' ''d2'' ''kernel.xml.gz'']\<rparr> \<and>
   requests_get demo_env ''v/kernel.xml.gz'' =
     Inr \<lparr>status_code = 200, content = ''D'', raw = ''D''\<rparr> \<and>
   sha256_hexdigest demo_env ''D'' = ''d1'' \<and>
   gzip_read demo_env ''D'' = Inr ''N'' \<and>
   sha256_hexdigest demo_env ''N'' = ''d2'' \<and>
   untangle_parse demo_env ''N'' = Inr (document modules_v) \<and>
   module_el ''5.4.0-generic'' ''c3'' ''lime-5.4.0.ko'' \<in> set (el_children modules_v) \<and>
   module_of (module_el ''5.4.0-generic'' ''c3'' ''lime-5.4.0.ko'') =
     Inr (module_rec ''5.4.0-generic'' ''c3'' ''lime-5.4.0.ko'') \<and>
   requests_get demo_env ''v/lime-5.4.0.ko'' =
     Inr \<lparr>status_code = 200, content = ''A'', raw = ''A''\<rparr> \<and>
   sha256_hexdigest demo_env ''A'' = ''c3'' \<and>
   open_wb demo_env ''lime-1970-01-01T00:00:00-5.4.0-generic.ko'' = None \<and>
   write_fault demo_env ''lime-1970-01-01T00:00:00-5.4.0-generic.ko'' ''A'' = None \<and>
   open_rb demo_env ''lime-1970-01-01T00:00:00-5.4.0-generic.ko'' = None \<and>
   fst (fetch demo_env repo_v ''5.4.0-generic'' ''kernel'' w0) =
     Inl (RepositoryError ''v/lime-5.4.0.ko''
            (Message ''checksum verification failed, expected bad got c3''))"
  by (simp add: model_defs demo_defs)

text \<open>
  Claim C1, amended. Let the index be read and name under \<open>kernel\<close> an entry with
  checksum C1, open_checksum C2 and location \<open>kernel.xml.gz\<close>; let the manifest be served
  with status 200 and digest C1, and decompress to a document of digest C2 whose
  \<open>modules\<close> element holds a module entry with version \<open>5.4.0-generic\<close>, checksum C3 and
  location \<open>lime-5.4.0.ko\<close>. If every entry before that one is well formed and no entry
  after it has the same version, the artifact served has digest C3, and the destination
  file can be opened, written and read back, then \<open>fetch\<close> returns the name of a file
  whose content has digest C3.
\<close>

theorem fetch_end_to_end:
  assumes "get_metadata E self w = (Inr md, w1)"
      and "manifests md (Some ''kernel'') = Some d"
      and "md_checksum d = c1" and "md_open_checksum d = c2"
      and "md_location d = Some ''kernel.xml.gz''"
      and "requests_get E (url self @ ''/kernel.xml.gz'') = Inr req"
      and "status_code req = 200"
      and "sha256_hexdigest E (raw req) = c1"
      and "gzip_read E (raw req) = Inr doc"
      and "sha256_hexdigest E doc = c2"
      and "untangle_parse E doc = Inr root"
      and "getattr root ''modules'' = Inr (Elem mods)"
      and "el_children mods = pre @ e # post"
      and "\<forall>x \<in> set pre. \<not> isl (module_of x)"
      and "module_of e = Inr m"
      and "mod_version m = ''5.4.0-generic''" and "mod_checksum m = c3"
      and "mod_location m = Some ''lime-5.4.0.ko''"
      and "\<forall>x \<in> set post. \<forall>m'. module_of x = Inr m' \<longrightarrow> mod_version m' \<noteq> ''5.4.0-generic''"
      and "requests_get E (url self @ ''/lime-5.4.0.ko'') = Inr areq"
      and "sha256_hexdigest E (raw areq) = c3"
      and "dest = ''lime-'' @ utc_isoformat E (time_time E) @ ''-5.4.0-generic.ko''"
      and "open_wb E dest = None"
      and "write_fault E dest (raw areq) = None"
      and "open_rb E dest = None"
  shows "\<exists>data.
           fst (fetch E self ''5.4.0-generic'' ''kernel'' w) = Inr dest \<and>
           files (snd (fetch E self ''5.4.0-generic'' ''kernel'' w)) dest = Some data \<and>
           sha256_hexdigest E data = c3"
proof -
  let ?w2 = "emit (LogDebug (ParsedMetadata md)) w1"
  have post: "\<forall>x \<in> set post. \<forall>m'. module_of x = Inr m' \<longrightarrow> mod_version m' \<noteq> mod_version m"
    using assms(16,19) by simp
  have table: "fst (parse_manifest_try E doc) ''5.4.0-generic'' = Some m"
    using parse_manifest_entry[OF assms(11,12,13,14,15) post] assms(16) by simp
  have "fst (get_manifest E self d ?w2) = Inr (fst (parse_manifest_try E doc))"
    using assms(3,4,6-10) by (intro get_manifest_ok[OF assms(5)]) simp_all
  then obtain M w3 where gm: "get_manifest E self d ?w2 = (Inr M, w3)"
    and M: "M ''5.4.0-generic'' = Some m"
    using table by (cases "get_manifest E self d ?w2") auto
  let ?w4 = "emit (LogDebug (FoundModule m)) w3"
  have f: "fetch E self ''5.4.0-generic'' ''kernel'' w = fetch_module E self m ?w4"
    using assms(1,2) gm M by (simp add: fetch_def Let_def)
  have served: "requests_get E (url self @ ''/'' @ str_of (mod_location m)) = Inr areq"
    using assms(18,20) by (simp add: str_of_def)
  have name: "dest = ''lime-'' @ utc_isoformat E (time_time E) @ ''-'' @ mod_version m @ ''.ko''"
    using assms(16,22) by simp
  have sum: "sha256_hexdigest E (raw areq) = mod_checksum m"
    using assms(17,21) by simp
  from fetch_module_ok[OF served name assms(23,24,25) sum, of ?w4] assms(21)
  show ?thesis
    unfolding f by auto
qed

theorem fetch_end_to_end_witness:
  "sha256_hexdigest demo_env ''T'' = ''c1'' \<and> gzip_read demo_env ''T'' = Inr ''U'' \<and>
   sha256_hexdigest demo_env ''U'' = ''c2'' \<and> sha256_hexdigest demo_env ''A'' = ''c3'' \<and>
   el_children modules_t =
     [module_el ''5.3.0-generic'' ''p3'' ''lime-5.3.0.ko''] @
     module_el ''5.4.0-generic'' ''c3'' ''lime-5.4.0.ko'' #
     [module_el ''5.5.0-generic'' ''p5'' ''lime-5.5.0.ko''] \<and>
   (\<exists>data.
      fst (fetch demo_env repo_t ''5.4.0-generic'' ''kernel'' w0) =
        Inr ''lime-1970-01-01T00:00:00-5.4.0-generic.ko'' \<and>
      files (snd (fetch demo_env repo_t ''5.4.0-generic'' ''kernel'' w0))
        ''lime-1970-01-01T00:00:00-5.4.0-generic.ko'' = Some data \<and>
      sha256_hexdigest demo_env data = ''c3'')"
proof -
  let ?d = "entry_of ''kernel'' ''c1'' ''c2'' ''kernel.xml.gz''"
  obtain md w1 where index: "get_metadata demo_env repo_t w0 = (Inr md, w1)"
    and entry: "manifests md (Some ''kernel'') = Some ?d"
    by (simp add: model_defs demo_defs)
  have "\<exists>data.
      fst (fetch demo_env repo_t ''5.4.0-generic'' ''kernel'' w0) =
        Inr ''lime-1970-01-01T00:00:00-5.4.0-generic.ko'' \<and>
      files (snd (fetch demo_env repo_t ''5.4.0-generic'' ''kernel'' w0))
        ''lime-1970-01-01T00:00:00-5.4.0-generic.ko'' = Some data \<and>
      sha256_hexdigest demo_env data = ''c3''"
    by (rule fetch_end_to_end[OF index entry,
          where req = "\<lparr>status_code = 200, content = ''T'', raw = ''T''\<rparr>"
            and doc = "''U''" and root = "document modules_t" and mods = modules_t
            and pre = "[module_el ''5.3.0-generic'' ''p3'' ''lime-5.3.0.ko'']"
            and e = "module_el ''5.4.0-generic'' ''c3'' ''lime-5.4.0.ko''"
            and post = "[module_el ''5.5.0-generic'' ''p5'' ''lime-5.5.0.ko'']"
            and m = "module_rec ''5.4.0-generic'' ''c3'' ''lime-5.4.0.ko''"
            and areq = "\<lparr>status_code = 200, content = ''A'', raw = ''A''\<rparr>"
            and ?c1.0 = "''c1''" and ?c2.0 = "''c2''"])
      (simp_all add: demo_defs module_of_def bind_exn_def getattr_def cdata_def getitem_def
        get_attribute_def child_cdata_def child_href_def)
  then show ?thesis
    by (simp add: demo_defs)
qed

subsection \<open>Where the code leaves the description\<close>

text \<open>
  Claim C4. A manifest type that is not in the index: \<open>fetch\<close> stops before any manifest
  is requested (the index is the only download), but what it raises is the KeyError of the
  dictionary lookup with the type as its key. No error of the repository's own is raised
  for it, unlike for a missing kernel version three lines below.
\<close>

theorem fetch_unknown_manifest_type:
  "fst (fetch demo_env repo_u ''5.4.0-generic'' ''firmware'' w0) = Inl (KeyError ''firmware'') \<and>
   http_gets (trace (snd (fetch demo_env repo_u ''5.4.0-generic'' ''firmware'' w0))) =
     [''u/repodata/repomd.xml'']"
  by (simp add: model_defs demo_defs)

lemma fetch_missing_type:
  assumes "get_metadata E self w = (Inr md, w1)" and "manifests md (Some manifest_type) = None"
  shows "fetch E self kernel_version manifest_type w =
           (Inl (KeyError manifest_type), emit (LogDebug (ParsedMetadata md)) w1)"
  using assms by (simp add: fetch_def Let_def)

text \<open>
  Claim C6. The server answers 404 for the manifest: \<open>get_manifest\<close> has no \<open>else\<close>
  branch and fails on the unassigned variable \<open>gz_manifest\<close>, with neither the path nor
  the status. \<open>get_metadata\<close>, for the index, raises the RepositoryError with both.
\<close>

theorem get_manifest_status_not_200:
  "requests_get demo_env ''u/gone.xml.gz'' =
     Inr \<lparr>status_code = 404, content = [], raw = []\<rparr> \<and>
   get_manifest demo_env repo_u (entry_of ''kernel'' ''c1'' ''c2'' ''gone.xml.gz'') w0 =
     (Inl (UnboundLocalError ''gz_manifest''),
      \<lparr>files = Map.empty, trace = [HttpGet ''u/gone.xml.gz'']\<rparr>) \<and>
   fst (get_metadata demo_env (init ''x/'' False) w0) =
     Inl (RepositoryError ''x/repodata/repomd.xml'' (Message ''status code not 200: 404''))"
  by (simp add: model_defs demo_defs str_int_def str_nat.simps)

lemma get_manifest_no_status_error:
  assumes "requests_get E (url self @ ''/'' @ str_of (md_location d)) = Inr req"
      and "status_code req \<noteq> 200"
  shows "get_manifest E self d w =
           (Inl (UnboundLocalError ''gz_manifest''),
            emit (HttpGet (url self @ ''/'' @ str_of (md_location d))) w)"
  using assms by (simp add: get_manifest_def Let_def)

text \<open>
  Claim C7. A manifest that is not XML (\<open>B\<close>), and one whose first module has no
  \<open>name\<close> (\<open>P\<close>): \<open>parse_manifest\<close> prints the exception and returns the table built
  so far. \<open>fetch\<close> on the manifest \<open>broken\<close> then reports a missing kernel module.
  \<open>parse_metadata\<close>, for the index, wraps the same parser failure in a RepositoryError.
\<close>

theorem parse_manifest_swallows_errors:
  "untangle_parse demo_env ''B'' = Inl (LibraryError ''SAXParseException'') \<and>
   parse_manifest demo_env ''B'' w0 =
     (Map.empty, \<lparr>files = Map.empty,
                  trace = [UntangleParse ''B'', Print (LibraryError ''SAXParseException'')]\<rparr>) \<and>
   fst (parse_manifest demo_env ''P'' w0) ''5.4.0-generic'' = None \<and>
   trace (snd (parse_manifest demo_env ''P'' w0)) =
     [UntangleParse ''P'', Print (AttributeError ''name'')] \<and>
   fst (fetch demo_env repo_u ''5.4.0-generic'' ''broken'' w0) =
     Inl (KernelModuleNotFoundError ''5.4.0-generic'' ''u'') \<and>
   fst (parse_metadata demo_env repo_u ''B'' w0) =
     Inl (RepositoryError ''u/repodata'' (Wrapped (LibraryError ''SAXParseException'')))"
  by (simp add: model_defs demo_defs)

lemma parse_manifest_never_raises:
  "\<exists>table rest. parse_manifest E manifest_xml w =
     (table, w\<lparr>trace := trace w @ UntangleParse manifest_xml # rest\<rparr>)"
  by (auto simp: parse_manifest_def emit_def Let_def split: prod.splits option.splits)

text \<open>
  Claim C9. The label of the second check is \<open>location.rstrip('.gz')\<close>, which strips the
  characters \<open>.\<close>, \<open>g\<close> and \<open>z\<close> from the end, not the suffix: for the location
  \<open>pkg.gz\<close> the label is \<open>pk\<close>, in the error raised and in the log record. The label
  is the location without \<open>.gz\<close> only when what stands before \<open>.gz\<close> ends in another
  character (\<open>rstrip_gz\<close>).
\<close>

theorem get_manifest_label:
  "rstrip ''pkg.gz'' ''.gz'' = ''pk'' \<and>
   fst (get_manifest demo_env repo_u (entry_of ''kernel'' ''c1'' ''xx'' ''pkg.gz'') w0) =
     Inl (RepositoryError ''u/pk''
            (Message ''checksum verification failed, expected xx got c2'')) \<and>
   LogDebug (Text ''calculated checksum c2 for pk'') \<in>
     set (trace (snd (get_manifest demo_env repo_u
                        (entry_of ''kernel'' ''c1'' ''c2'' ''pkg.gz'') w0)))"
  by (simp add: model_defs demo_defs)

lemma rstrip_gz:
  assumes "base \<noteq> []" and "last base \<notin> set ''.gz''"
  shows "rstrip (base @ ''.gz'') ''.gz'' = base"
proof -
  from assms(1) obtain bs b where base: "base = bs @ [b]"
    by (cases base rule: rev_cases) auto
  with assms(2) show ?thesis
    by (simp add: rstrip_def)
qed

end
